theory Spec2Isabelle
  imports Main "HOL-Library.Char_ord"
begin

section \<open>Error model (core/models.py)\<close>

datatype Severity = ERROR | WARNING | INFO

record LineRange =
  range_start :: int
  range_end :: int

text \<open>
  \<open>LintingError\<close>: the field \<open>id\<close> of the source is \<open>error_id\<close> here, since \<open>id\<close> is
  the identity function of HOL, and \<open>file\<close> is \<open>file_path\<close> (a reserved word). \<open>ColumnRange\<close> has the fields of \<open>LineRange\<close>.
\<close>

record LintingError =
  error_id :: string
  severity :: Severity
  title :: string
  message :: string
  file_path :: string
  properties_path :: "string option"
  line :: "LineRange option"
  column :: "LineRange option"

text \<open>The constructor call \<open>LintingError(id=..., severity=..., title=..., message=..., file=...,
  properties_path=...)\<close>; \<open>line\<close> and \<open>column\<close> default to \<open>None\<close>.\<close>

definition mk_error ::
  "string \<Rightarrow> Severity \<Rightarrow> string \<Rightarrow> string \<Rightarrow> string \<Rightarrow> string option \<Rightarrow> LintingError" where
  "mk_error i s t m f p =
     \<lparr>error_id = i, severity = s, title = t, message = m, file_path = f,
      properties_path = p, line = None, column = None\<rparr>"

record LintingResult =
  errors :: "LintingError list"
  success :: bool
  total_errors :: int
  total_warnings :: int
  total_info :: int

text \<open>\<open>LintingResult()\<close>: the field defaults.\<close>

definition empty_result :: LintingResult where
  "empty_result =
     \<lparr>errors = [], success = True, total_errors = 0, total_warnings = 0, total_info = 0\<rparr>"

text \<open>\<open>LintingResult.add_error\<close>: append, clear \<open>success\<close> on an ERROR, bump one counter.\<close>

definition add_error :: "LintingResult \<Rightarrow> LintingError \<Rightarrow> LintingResult" where
  "add_error r e =
     (let r1 = r\<lparr>errors := errors r @ [e]\<rparr>;
          r2 = (if severity e = ERROR then r1\<lparr>success := False\<rparr> else r1)
      in if severity e = ERROR then r2\<lparr>total_errors := total_errors r2 + 1\<rparr>
         else if severity e = WARNING then r2\<lparr>total_warnings := total_warnings r2 + 1\<rparr>
         else if severity e = INFO then r2\<lparr>total_info := total_info r2 + 1\<rparr>
         else r2)"

text \<open>A loop \<open>for error in es: result.add_error(error)\<close>.\<close>

definition add_errors :: "LintingResult \<Rightarrow> LintingError list \<Rightarrow> LintingResult" where
  "add_errors r es = foldl add_error r es"

text \<open>\<open>has_errors\<close>, \<open>has_warnings\<close>, \<open>has_info\<close>: scans of the list.\<close>

definition has_errors :: "LintingResult \<Rightarrow> bool" where
  "has_errors r = list_ex (\<lambda>e. severity e = ERROR) (errors r)"

definition has_warnings :: "LintingResult \<Rightarrow> bool" where
  "has_warnings r = list_ex (\<lambda>e. severity e = WARNING) (errors r)"

definition has_info :: "LintingResult \<Rightarrow> bool" where
  "has_info r = list_ex (\<lambda>e. severity e = INFO) (errors r)"

text \<open>The number of Findings of one severity in a list.\<close>

definition count_severity :: "Severity \<Rightarrow> LintingError list \<Rightarrow> int" where
  "count_severity s es = int (length (filter (\<lambda>e. severity e = s) es))"

section \<open>Python string operations\<close>

definition is_lower :: "char \<Rightarrow> bool" where
  "is_lower c = (CHR ''a'' \<le> c \<and> c \<le> CHR ''z'')"

definition is_upper :: "char \<Rightarrow> bool" where
  "is_upper c = (CHR ''A'' \<le> c \<and> c \<le> CHR ''Z'')"

definition is_digit :: "char \<Rightarrow> bool" where
  "is_digit c = (CHR ''0'' \<le> c \<and> c \<le> CHR ''9'')"

text \<open>\<open>s.startswith(p)\<close>.\<close>

fun starts_with :: "string \<Rightarrow> string \<Rightarrow> bool" where
  "starts_with s [] = True"
| "starts_with [] (p # ps) = False"
| "starts_with (c # cs) (p # ps) = (c = p \<and> starts_with cs ps)"

text \<open>\<open>sub in s\<close> for two strings.\<close>

fun contains :: "string \<Rightarrow> string \<Rightarrow> bool" where
  "contains sub [] = (sub = [])"
| "contains sub (c # cs) = (starts_with (c # cs) sub \<or> contains sub cs)"

text \<open>\<open>s.find(sub)\<close>: the lowest index where \<open>sub\<close> starts, or \<open>-1\<close>.\<close>

fun py_find :: "string \<Rightarrow> string \<Rightarrow> int" where
  "py_find [] sub = (if sub = [] then 0 else -1)"
| "py_find (c # cs) sub =
     (if starts_with (c # cs) sub then 0
      else (let r = py_find cs sub in if r < 0 then -1 else r + 1))"

text \<open>\<open>s[a:b]\<close>: a negative index counts from the end; both are clipped to the string.\<close>

definition py_slice :: "string \<Rightarrow> int \<Rightarrow> int \<Rightarrow> string" where
  "py_slice s a b =
     (let n = int (length s);
          a' = (if a < 0 then max 0 (a + n) else min a n);
          b' = (if b < 0 then max 0 (b + n) else min b n)
      in take (nat (b' - a')) (drop (nat a') s))"

text \<open>
  \<open>s.replace(old, new)\<close>: every occurrence, left to right, without overlap. The first
  argument of \<open>replace_from\<close> is the number of characters of a replaced occurrence still to
  skip. An empty \<open>old\<close> puts \<open>new\<close> before every character and at the end.
\<close>

fun replace_from :: "nat \<Rightarrow> string \<Rightarrow> string \<Rightarrow> string \<Rightarrow> string" where
  "replace_from k [] old new = []"
| "replace_from (Suc k) (c # cs) old new = replace_from k cs old new"
| "replace_from 0 (c # cs) old new =
     (if starts_with (c # cs) old then new @ replace_from (length old - 1) cs old new
      else c # replace_from 0 cs old new)"

definition py_replace :: "string \<Rightarrow> string \<Rightarrow> string \<Rightarrow> string" where
  "py_replace s old new =
     (if old = [] then new @ concat (map (\<lambda>c. c # new) s) else replace_from 0 s old new)"

text \<open>\<open>str(n)\<close> for an integer.\<close>

fun str_nat :: "nat \<Rightarrow> string" where
  "str_nat n =
     (if n < 10 then [''0123456789'' ! n]
      else str_nat (n div 10) @ [''0123456789'' ! (n mod 10)])"

declare str_nat.simps [simp del]

definition str_int :: "int \<Rightarrow> string" where
  "str_int i = (if i < 0 then CHR ''-'' # str_nat (nat (- i)) else str_nat (nat i))"

section \<open>Variable mocker (validators/variable\_mocker.py)\<close>

text \<open>The character class \<open>[a-zA-Z0-9_\-:]\<close>.\<close>

definition name_char :: "char \<Rightarrow> bool" where
  "name_char c =
     (is_lower c \<or> is_upper c \<or> is_digit c \<or> c = CHR ''_'' \<or> c = CHR ''-'' \<or> c = CHR '':'')"

text \<open>
  One match of \<open>\$(?:([a-zA-Z0-9_\-:]+)|\{([a-zA-Z0-9_\-:]+)\})\<close> at the start of a
  string: the two groups (the one that did not take part is empty, as \<open>findall\<close> gives
  it) and the text after the match. The class has neither brace, so the greedy run of the
  second alternative can only end at the closing brace.
\<close>

definition match_variable :: "string \<Rightarrow> (string \<times> string \<times> string) option" where
  "match_variable s =
     (case s of
        [] \<Rightarrow> None
      | c # r \<Rightarrow>
          if c \<noteq> CHR ''$'' then None
          else if takeWhile name_char r \<noteq> [] then
            Some (takeWhile name_char r, [], dropWhile name_char r)
          else (case r of
                  [] \<Rightarrow> None
                | b # r2 \<Rightarrow>
                    if takeWhile name_char r2 = [] \<or> b \<noteq> CHR ''{'' then None
                    else (case dropWhile name_char r2 of
                            [] \<Rightarrow> None
                          | e # r3 \<Rightarrow>
                              if e = CHR ''}'' then Some ([], takeWhile name_char r2, r3)
                              else None)))"

text \<open>
  \<open>re.findall(pattern, content)\<close>: the matches from left to right, the search going on
  after each match. The first argument is the number of characters of the last match
  still to skip.
\<close>

fun findall_from :: "nat \<Rightarrow> string \<Rightarrow> (string \<times> string) list" where
  "findall_from k [] = []"
| "findall_from (Suc k) (c # cs) = findall_from k cs"
| "findall_from 0 (c # cs) =
     (case match_variable (c # cs) of
        None \<Rightarrow> findall_from 0 cs
      | Some (g1, g2, rest) \<Rightarrow>
          (g1, g2) # findall_from (length (c # cs) - length rest - 1) cs)"

definition findall_variables :: "string \<Rightarrow> (string \<times> string) list" where
  "findall_variables content = findall_from 0 content"

record mock_var =
  full_variable :: string
  variable :: string
  mock :: string

text \<open>
  The body of the loop of \<open>_extract_variables\<close>. \<open>f"${variable}"\<close> is a dollar sign and
  the name; \<open>f"${{{variable}}}"\<close> is the name in \<open>${\<close> and \<open>}\<close>.
\<close>

definition extract_variable :: "string \<Rightarrow> string \<times> string \<Rightarrow> mock_var" where
  "extract_variable content m =
     (let var = (if fst m \<noteq> [] then fst m else snd m);
          dollar = CHR ''$'' # var;
          i = py_find content dollar;
          full = (if contains ''{'' (py_slice content i (i + int (length dollar) + 1))
                  then ''${'' @ var @ ''}'' else dollar)
      in \<lparr>full_variable = full, variable = var, mock = []\<rparr>)"

definition extract_variables :: "string \<Rightarrow> mock_var list" where
  "extract_variables content = map (extract_variable content) (findall_variables content)"

text \<open>
  \<open>random.randint(lo, hi)\<close> returns some integer of \<open>[lo, hi]\<close>, chosen by the state of
  the generator. The model takes the generator as a sequence of natural numbers \<open>rnd\<close> and
  an index of the next one to use; the number \<open>e\<close> drawn selects \<open>lo + e mod (hi - lo + 1)\<close>,
  so every value of the range, and no other, can come out.
\<close>

definition randint :: "int \<Rightarrow> int \<Rightarrow> nat \<Rightarrow> int" where
  "randint lo hi e = lo + int e mod (hi - lo + 1)"

text \<open>
  The \<open>if\<close>/\<open>elif\<close> chain of \<open>_find_mocks\<close> for one variable name, in the order of the
  source: the mock value and the index of the next random number.
\<close>

definition find_mock :: "(nat \<Rightarrow> nat) \<Rightarrow> nat \<Rightarrow> string \<Rightarrow> string \<times> nat" where
  "find_mock rnd k v =
     (if contains ''_IP'' v then (''10.10.10.10'', k)
      else if contains ''_PORT'' v then (str_int (randint 1024 65535 (rnd k)), Suc k)
      else if contains ''_PASS'' v then (''password'', k)
      else if contains ''_USER'' v then (''username'', k)
      else if contains ''_DIR'' v then (''/path/to/dir'', k)
      else if contains ''_PATH'' v then (''/some/path'', k)
      else if contains ''_SERVICE'' v then (''service'', k)
      else if contains ''_SEED'' v then (''seed'', k)
      else if contains ''_CONFIG'' v then (''/path/to/config'', k)
      else if contains ''_MODE'' v then (''production'', k)
      else if contains ''_NETWORK'' v then (''network'', k)
      else if contains ''_DOMAIN'' v then (''domain.com'', k)
      else if contains ''_NAME'' v then (''name'', k)
      else if contains ''_VERSION'' v then (''1.0.0'', k)
      else if contains ''_ROOT'' v then (''/path/to/root'', k)
      else if contains ''_KEY'' v then (''key'', k)
      else if contains ''_SECRET'' v then (''secret'', k)
      else if contains ''_TOKEN'' v then (''token'', k)
      else if contains ''_HOST'' v then (''host'', k)
      else (''mocked'', k))"

fun find_mocks :: "(nat \<Rightarrow> nat) \<Rightarrow> nat \<Rightarrow> mock_var list \<Rightarrow> mock_var list \<times> nat" where
  "find_mocks rnd k [] = ([], k)"
| "find_mocks rnd k (var # vars) =
     (let m = find_mock rnd k (variable var);
          rest = find_mocks rnd (snd m) vars
      in (var\<lparr>mock := fst m\<rparr> # fst rest, snd rest))"

fun replace_variables :: "string \<Rightarrow> mock_var list \<Rightarrow> string" where
  "replace_variables content [] = content"
| "replace_variables content (var # vars) =
     replace_variables (py_replace content (full_variable var) (mock var)) vars"

text \<open>\<open>mock_variables\<close>, for a generator \<open>rnd\<close> read from its index \<open>k\<close>.\<close>

definition mock_variables_from :: "(nat \<Rightarrow> nat) \<Rightarrow> nat \<Rightarrow> string \<Rightarrow> string \<times> nat" where
  "mock_variables_from rnd k content =
     (let variables = extract_variables content;
          mocked_variables = find_mocks rnd k variables
      in (replace_variables content (fst mocked_variables), snd mocked_variables))"

definition mock_variables :: "(nat \<Rightarrow> nat) \<Rightarrow> string \<Rightarrow> string" where
  "mock_variables rnd content = fst (mock_variables_from rnd 0 content)"

definition const_rnd :: "nat \<Rightarrow> nat \<Rightarrow> nat" where
  "const_rnd n k = n"


text \<open>
  The placeholders of the specification: a dollar sign and a name (a non-empty run of
  name characters), or a dollar sign and a name in braces.
\<close>

definition placeholder_at :: "string \<Rightarrow> bool" where
  "placeholder_at s =
     (case s of
        d # c # r \<Rightarrow>
          d = CHR ''$'' \<and>
          (name_char c \<or>
           (c = CHR ''{'' \<and> takeWhile name_char r \<noteq> [] \<and>
            starts_with (dropWhile name_char r) ''}''))
      | _ \<Rightarrow> False)"

fun has_placeholder :: "string \<Rightarrow> bool" where
  "has_placeholder [] = False"
| "has_placeholder (c # cs) = (placeholder_at (c # cs) \<or> has_placeholder cs)"

text \<open>The variables for which \<open>_find_mocks\<close> calls the random generator.\<close>

definition draws_random :: "string \<Rightarrow> bool" where
  "draws_random v = (contains ''_PORT'' v \<and> \<not> contains ''_IP'' v)"

text \<open>The keyword table in the order of the chain of \<open>_find_mocks\<close>; the token of \<open>_PORT\<close>
  stands for the number drawn.\<close>

definition mock_table :: "(string \<times> string) list" where
  "mock_table =
     [(''_IP'', ''10.10.10.10''), (''_PORT'', ''<random>''), (''_PASS'', ''password''),
      (''_USER'', ''username''), (''_DIR'', ''/path/to/dir''), (''_PATH'', ''/some/path''),
      (''_SERVICE'', ''service''), (''_SEED'', ''seed''), (''_CONFIG'', ''/path/to/config''),
      (''_MODE'', ''production''), (''_NETWORK'', ''network''), (''_DOMAIN'', ''domain.com''),
      (''_NAME'', ''name''), (''_VERSION'', ''1.0.0''), (''_ROOT'', ''/path/to/root''),
      (''_KEY'', ''key''), (''_SECRET'', ''secret''), (''_TOKEN'', ''token''),
      (''_HOST'', ''host'')]"

definition first_keyword :: "string \<Rightarrow> (string \<times> string) option" where
  "first_keyword v = find (\<lambda>e. contains (fst e) v) mock_table"

text \<open>\<open>s.split(sep)\<close> for a one-character separator: never an empty list.\<close>

fun split_on :: "char \<Rightarrow> string \<Rightarrow> string list" where
  "split_on sep [] = [[]]"
| "split_on sep (c # cs) =
     (if c = sep then [] # split_on sep cs
      else (case split_on sep cs of
              [] \<Rightarrow> [[c]]
            | p # ps \<Rightarrow> (c # p) # ps))"

text \<open>\<open>sep.join(parts)\<close>.\<close>

fun join :: "string \<Rightarrow> string list \<Rightarrow> string" where
  "join sep [] = []"
| "join sep [p] = p"
| "join sep (p # q # ps) = p @ sep @ join sep (q # ps)"

text \<open>
  \<open>s.rsplit(sep, 1)\<close> for a one-character separator that occurs in \<open>s\<close>: the text before
  the last occurrence and the text after it. Without an occurrence the source does not
  call it (\<open>if sep in s\<close>), and the result here is \<open>None\<close>.
\<close>

definition rsplit_last :: "char \<Rightarrow> string \<Rightarrow> (string \<times> string) option" where
  "rsplit_last sep s =
     (if sep \<in> set s
      then Some (rev (tl (dropWhile (\<lambda>c. c \<noteq> sep) (rev s))),
                 rev (takeWhile (\<lambda>c. c \<noteq> sep) (rev s)))
      else None)"

section \<open>Image references (validators/docker\_image\_validator.py)\<close>

record DockerImage =
  host :: string
  path :: string
  tag :: "string option"
  digest :: "string option"

text \<open>\<open>DockerImage.from_string\<close> on a string; it raises on no string.\<close>

definition from_string :: "string \<Rightarrow> DockerImage" where
  "from_string image_string =
     (let (image_part, dg) =
            (case rsplit_last CHR ''@'' image_string of
               Some (a, d) \<Rightarrow> (a, Some d)
             | None \<Rightarrow> (image_string, None));
          (name_part, tg) =
            (case rsplit_last CHR '':'' image_part of
               Some (a, t) \<Rightarrow> (a, Some t)
             | None \<Rightarrow> (image_part, None));
          parts = split_on CHR ''/'' name_part;
          (h, p) =
            (if length parts = 1 then (''docker.io'', ''library/'' @ hd parts)
             else if length parts = 2 then
               (if CHR ''.'' \<in> set (hd parts) \<or> CHR '':'' \<in> set (hd parts)
                then (hd parts, parts ! 1)
                else (''docker.io'', join ''/'' parts))
             else (hd parts, join ''/'' (tl parts)))
      in \<lparr>host = h, path = p, tag = tg, digest = dg\<rparr>)"

text \<open>A value of \<open>str | None\<close> is true when it is a non-empty string.\<close>

definition truthy_str :: "string option \<Rightarrow> bool" where
  "truthy_str v = (case v of None \<Rightarrow> False | Some s \<Rightarrow> s \<noteq> [])"

text \<open>\<open>DockerImage.__str__\<close>.\<close>

definition image_str :: "DockerImage \<Rightarrow> string" where
  "image_str img =
     (let result = host img @ ''/'' @ path img;
          result1 = (if truthy_str (tag img) then result @ '':'' @ the (tag img) else result)
      in if truthy_str (digest img) then result1 @ ''@'' @ the (digest img) else result1)"


definition api_path :: "DockerImage \<Rightarrow> string" where
  "api_path img = path img"

definition is_hex :: "char \<Rightarrow> bool" where
  "is_hex c =
     (is_digit c \<or> (CHR ''a'' \<le> c \<and> c \<le> CHR ''f'') \<or> (CHR ''A'' \<le> c \<and> c \<le> CHR ''F''))"

section \<open>Values of parsed documents and Python exceptions\<close>

text \<open>
  What \<open>yaml.safe_load\<close> returns, as far as the code modelled here reads it: \<open>None\<close>,
  booleans, integers, strings, lists, and dictionaries with string keys, the items in the
  order of the document.
\<close>

datatype yaml =
    YNull
  | YBool bool
  | YInt int
  | YStr string
  | YSeq "yaml list"
  | YMap "(string \<times> yaml) list"

text \<open>The truth value Python gives a value in \<open>if v:\<close>.\<close>

fun truthy :: "yaml \<Rightarrow> bool" where
  "truthy YNull = False"
| "truthy (YBool b) = b"
| "truthy (YInt i) = (i \<noteq> 0)"
| "truthy (YStr s) = (s \<noteq> [])"
| "truthy (YSeq xs) = (xs \<noteq> [])"
| "truthy (YMap kvs) = (kvs \<noteq> [])"

text \<open>The exceptions that leave the functions modelled here.\<close>

datatype py_exception = AttributeError | TypeError | OSError

text \<open>
  \<open>d.get(key)\<close>: \<open>None\<close> for a missing key, and an \<open>AttributeError\<close> when \<open>d\<close> is no
  dictionary (\<open>None\<close>, a string, a number and a list have no \<open>get\<close>).
\<close>

definition py_get :: "yaml \<Rightarrow> string \<Rightarrow> py_exception + yaml" where
  "py_get d key =
     (case d of
        YMap kvs \<Rightarrow> (case map_of kvs key of None \<Rightarrow> Inr YNull | Some v \<Rightarrow> Inr v)
      | _ \<Rightarrow> Inl AttributeError)"

text \<open>
  Where a pattern ends in \<open>$\<close> (no \<open>MULTILINE\<close>), the match may end at the end of the
  string or before a line feed that is its last character: the texts that the pattern
  without \<open>$\<close> has to match in full.
\<close>

definition re_end_variants :: "string \<Rightarrow> string list" where
  "re_end_variants s =
     (if s \<noteq> [] \<and> last s = CHR 0x0A then [s, butlast s] else [s])"

text \<open>A to Z mapped to a to z, every other character left as it is.\<close>

definition ascii_lower :: "char \<Rightarrow> char" where
  "ascii_lower c =
     (if is_upper c then ''abcdefghijklmnopqrstuvwxyz'' ! (of_char c - 65) else c)"

definition lower :: "string \<Rightarrow> string" where
  "lower s = map ascii_lower s"

section \<open>Store manifest identifier (schemas/umbrel\_app.py)\<close>

text \<open>
  A full match of \<open>[a-z]+(?:-[a-z]+)*\<close>: groups of lower-case letters with one dash
  between two groups. The flag says that the group being read has a letter already.
\<close>

fun id_groups :: "bool \<Rightarrow> string \<Rightarrow> bool" where
  "id_groups seen [] = seen"
| "id_groups seen (c # cs) =
     (if is_lower c then id_groups True cs
      else if c = CHR ''-'' \<and> seen then id_groups False cs
      else False)"

text \<open>\<open>re.match(r"^[a-z]+(?:-[a-z]+)*$", v)\<close>.\<close>

definition store_id_format :: "string \<Rightarrow> bool" where
  "store_id_format v = list_ex (id_groups False) (re_end_variants v)"

datatype field_error = TooShort | TooLong | ValueError string

text \<open>\<open>UmbrelAppStoreManifest.validate_id\<close>: the value, or the \<open>ValueError\<close> raised.\<close>

definition store_validate_id :: "string \<Rightarrow> field_error + string" where
  "store_validate_id v =
     (if starts_with v ''umbrel-app-store'' then
        Inl (ValueError ''The id of the app can't start with 'umbrel-app-store' as it is the id of the official Umbrel App Store.'')
      else if \<not> store_id_format v then
        Inl (ValueError ''The id of the app should contain only alphabets ('a' to 'z') and dashes ('-').'')
      else Inr v)"

text \<open>
  The field \<open>id\<close> of \<open>UmbrelAppStoreManifest\<close> for a string: the length bounds of the
  \<open>Field\<close>, then the validator.
\<close>

definition store_manifest_id :: "string \<Rightarrow> field_error + string" where
  "store_manifest_id v =
     (if length v < 1 then Inl TooShort
      else if length v > 50 then Inl TooLong
      else store_validate_id v)"

text \<open>
  An id that starts with \<open>umbrel-app-store\<close> in some letter case: its first sixteen
  characters, upper-case letters made lower-case, are \<open>umbrel-app-store\<close>.
\<close>

definition starts_with_reserved_any_case :: "string \<Rightarrow> bool" where
  "starts_with_reserved_any_case v = starts_with (lower v) ''umbrel-app-store''"

section \<open>Registry client and image validation (validators/docker\_image\_validator.py)\<close>



text \<open>
  \<open>DockerRegistryClient\<close>: the cache \<open>_cache\<close>, and a log of the images for which
  \<open>get_architectures\<close> has been called (not in the source: it records the calls).
\<close>

text \<open>
  The interpreter, where the code formats a value that is no string: \<open>py_str v\<close> is
  \<open>str(v)\<close>, as an f-string inserts it, and \<open>from_string_exc v\<close> is \<open>str(e)\<close> for the
  exception \<open>e\<close> that \<open>DockerImage.from_string(v)\<close> raises when \<open>v\<close> is no string.
\<close>

record interp =
  py_str :: "yaml \<Rightarrow> string"
  from_string_exc :: "yaml \<Rightarrow> string"






definition quoted :: "string \<Rightarrow> string" where
  "quoted s = [CHR 0x22] @ s @ [CHR 0x22]"









definition plain_interp :: interp where
  "plain_interp = \<lparr>py_str = (\<lambda>v. ''<value>''), from_string_exc = (\<lambda>v. ''<exception>'')\<rparr>"



text \<open>The ids of the Findings returned, none when an exception leaves the function.\<close>

definition finding_ids :: "'e + LintingError list \<Rightarrow> string list" where
  "finding_ids r = (case r of Inl e \<Rightarrow> [] | Inr es \<Rightarrow> map error_id es)"







section \<open>GitHub checks (validators/github\_validator.py)\<close>

text \<open>What the code reads of the result of \<open>urllib.parse.urlparse\<close>.\<close>

record parsed_url =
  scheme :: string
  hostname :: "string option"
  url_path :: string

text \<open>
  The world outside the validator. \<open>urlparse w u\<close> is the result of \<open>urlparse(u)\<close>, or
  \<open>None\<close> when it raises. \<open>http_get w n u\<close> is the outcome of the \<open>n\<close>-th request of the
  run, a \<open>GET\<close> of \<open>u\<close>: the status code of the response, or \<open>None\<close> when the request
  raises (no connection, a timeout, any other exception).
\<close>

record web =
  urlparse :: "string \<Rightarrow> parsed_url option"
  http_get :: "nat \<Rightarrow> string \<Rightarrow> nat option"

text \<open>
  \<open>GitHubValidator\<close>: the cache \<open>_cache\<close>, and the list of the URLs requested so far (not
  in the source: its length numbers the requests).
\<close>

record github_validator =
  gh_cache :: "string \<Rightarrow> bool option"
  gh_requests :: "string list"

definition new_github_validator :: github_validator where
  "new_github_validator = \<lparr>gh_cache = (\<lambda>u. None), gh_requests = []\<rparr>"

text \<open>Python's \<open>str.isspace\<close> on the characters below 256, and \<open>s.strip()\<close>.\<close>

definition is_space :: "char \<Rightarrow> bool" where
  "is_space c =
     (c \<in> set [CHR 0x09, CHR 0x0A, CHR 0x0B, CHR 0x0C, CHR 0x0D, CHR 0x1C, CHR 0x1D,
                CHR 0x1E, CHR 0x1F, CHR 0x20, CHR 0x85, CHR 0xA0])"

definition py_strip :: "string \<Rightarrow> string" where
  "py_strip s = rev (dropWhile is_space (rev (dropWhile is_space s)))"

text \<open>\<open>str(v)\<close>: the string itself, and what the interpreter prints for another value.\<close>

definition str_of :: "interp \<Rightarrow> yaml \<Rightarrow> string" where
  "str_of py v = (case v of YStr s \<Rightarrow> s | _ \<Rightarrow> py_str py v)"

text \<open>
  A full match of \<open>/[^/]+/[^/]+/pull/\d+/?\<close>: without the optional last slash, the text
  split at the slashes is an empty part, two non-empty parts, \<open>pull\<close> and a number.
\<close>

definition strip_last_slash :: "string \<Rightarrow> string" where
  "strip_last_slash q = (if q \<noteq> [] \<and> last q = CHR ''/'' then butlast q else q)"

definition pr_path_full :: "string \<Rightarrow> bool" where
  "pr_path_full q =
     (let parts = split_on CHR ''/'' (strip_last_slash q)
      in length parts = 5 \<and> parts ! 0 = [] \<and> parts ! 1 \<noteq> [] \<and> parts ! 2 \<noteq> [] \<and>
         parts ! 3 = ''pull'' \<and> parts ! 4 \<noteq> [] \<and> list_all is_digit (parts ! 4))"

text \<open>A full match of \<open>/[^/]+/[^/]+/?\<close>.\<close>

definition repo_path_full :: "string \<Rightarrow> bool" where
  "repo_path_full q =
     (let parts = split_on CHR ''/'' (strip_last_slash q)
      in length parts = 3 \<and> parts ! 0 = [] \<and> parts ! 1 \<noteq> [] \<and> parts ! 2 \<noteq> [])"

definition github_hosts :: "string option list" where
  "github_hosts = [Some ''github.com'', Some ''www.github.com'']"

text \<open>\<open>_is_github_pr_url\<close> and \<open>_is_github_repo_url\<close>.\<close>

definition is_github_pr_url :: "web \<Rightarrow> string \<Rightarrow> bool" where
  "is_github_pr_url w url =
     (case urlparse w url of
        None \<Rightarrow> False
      | Some parsed \<Rightarrow>
          if hostname parsed \<notin> set github_hosts then False
          else if scheme parsed \<noteq> ''https'' then False
          else list_ex pr_path_full (re_end_variants (url_path parsed)))"

definition is_github_repo_url :: "web \<Rightarrow> string \<Rightarrow> bool" where
  "is_github_repo_url w url =
     (case urlparse w url of
        None \<Rightarrow> False
      | Some parsed \<Rightarrow>
          if hostname parsed \<notin> set github_hosts then False
          else if scheme parsed \<noteq> ''https'' then False
          else list_ex repo_path_full (re_end_variants (url_path parsed)))"

text \<open>\<open>_parse_github_pr\<close>: owner, repository and number, or \<open>None\<close> for the three.\<close>

definition parse_github_pr :: "web \<Rightarrow> string \<Rightarrow> (string \<times> string \<times> string) option" where
  "parse_github_pr w url =
     (case urlparse w url of
        None \<Rightarrow> None
      | Some parsed \<Rightarrow>
          (let parts = filter (\<lambda>p. p \<noteq> []) (split_on CHR ''/'' (url_path parsed))
           in if length parts \<ge> 4 \<and> parts ! 2 = ''pull''
              then Some (parts ! 0, parts ! 1, parts ! 3) else None))"

definition record_answer :: "github_validator \<Rightarrow> string \<Rightarrow> string \<Rightarrow> bool \<Rightarrow> bool \<times> github_validator" where
  "record_answer st key requested answer =
     (answer, \<lparr>gh_cache = (gh_cache st)(key \<mapsto> answer), gh_requests = gh_requests st @ [requested]\<rparr>)"

text \<open>
  \<open>_pr_exists\<close>. The parts returned by \<open>_parse_github_pr\<close> are non-empty, so
  \<open>owner and repo and number\<close> holds exactly when it returns them: then the request goes
  to the API (\<open>pr_request_url\<close>), else to the page itself. Both branches read the status
  code in the same way.
\<close>

definition pr_request_url :: "web \<Rightarrow> string \<Rightarrow> string" where
  "pr_request_url w pr_url =
     (case parse_github_pr w pr_url of
        Some (owner, repo, number) \<Rightarrow>
          ''https://api.github.com/repos/'' @ owner @ ''/'' @ repo @ ''/pulls/'' @ number
      | None \<Rightarrow> pr_url)"

definition pr_exists :: "web \<Rightarrow> github_validator \<Rightarrow> string \<Rightarrow> bool \<times> github_validator" where
  "pr_exists w st pr_url =
     (case gh_cache st pr_url of
        Some b \<Rightarrow> (b, st)
      | None \<Rightarrow>
          (case http_get w (length (gh_requests st)) (pr_request_url w pr_url) of
             None \<Rightarrow> record_answer st pr_url (pr_request_url w pr_url) True
           | Some status_code \<Rightarrow>
               record_answer st pr_url (pr_request_url w pr_url)
                 (if status_code = 200 then True
                  else if status_code = 404 then False
                  else True)))"

text \<open>\<open>_repo_exists\<close>.\<close>

definition repo_exists :: "web \<Rightarrow> github_validator \<Rightarrow> string \<Rightarrow> bool \<times> github_validator" where
  "repo_exists w st repo_url =
     (case gh_cache st repo_url of
        Some b \<Rightarrow> (b, st)
      | None \<Rightarrow>
          (case http_get w (length (gh_requests st)) repo_url of
             None \<Rightarrow> record_answer st repo_url repo_url True
           | Some status_code \<Rightarrow> record_answer st repo_url repo_url (status_code = 200)))"

text \<open>\<open>validate_pull_request\<close>.\<close>

definition validate_pull_request ::
  "web \<Rightarrow> github_validator \<Rightarrow> string \<Rightarrow> string \<Rightarrow> LintingError list \<times> github_validator" where
  "validate_pull_request w st pr_url app_id =
     (if \<not> is_github_pr_url w pr_url then
        ([mk_error ''invalid_submission_field'' ERROR
            (''Invalid submission URL '' @ quoted pr_url)
            ''Submission URL must be a valid GitHub pull request URL (e.g., https://github.com/owner/repo/pull/123)''
            (app_id @ ''/umbrel-app.yml'') (Some ''submission'')], st)
      else
        (let r = pr_exists w st pr_url
         in if \<not> fst r then
              ([mk_error ''invalid_submission_field'' ERROR
                  (''Pull request not found '' @ quoted pr_url)
                  ''The specified pull request does not exist or is not accessible. Please check the URL and ensure the PR is public.''
                  (app_id @ ''/umbrel-app.yml'') (Some ''submission'')], snd r)
            else ([], snd r)))"

text \<open>\<open>_validate_github_repo_url\<close>.\<close>

definition validate_github_repo_url ::
  "web \<Rightarrow> github_validator \<Rightarrow> string \<Rightarrow> string \<Rightarrow> LintingError list \<times> github_validator" where
  "validate_github_repo_url w st repo_url app_id =
     (if \<not> is_github_repo_url w repo_url then
        ([mk_error ''invalid_repo_url'' WARNING
            (''Invalid repository URL '' @ quoted repo_url)
            ''Repository URL should be a valid GitHub repository URL (e.g., https://github.com/owner/repo)''
            (app_id @ ''/umbrel-app.yml'') (Some ''repo'')], st)
      else
        (let r = repo_exists w st repo_url
         in if \<not> fst r then
              ([mk_error ''invalid_repo_url'' WARNING
                  (''Repository not found '' @ quoted repo_url)
                  ''The specified repository does not exist or is not accessible. Please check the URL.''
                  (app_id @ ''/umbrel-app.yml'') (Some ''repo'')], snd r)
            else ([], snd r)))"

text \<open>
  \<open>validate_github_urls\<close>. \<open>manifest_data.get\<close> raises when the manifest is no
  dictionary.
\<close>

definition validate_github_urls ::
  "web \<Rightarrow> interp \<Rightarrow> github_validator \<Rightarrow> yaml \<Rightarrow> string
     \<Rightarrow> (py_exception + LintingError list) \<times> github_validator" where
  "validate_github_urls w py st manifest_data app_id =
     (case py_get manifest_data ''submission'' of
        Inl e \<Rightarrow> (Inl e, st)
      | Inr submission_url \<Rightarrow>
          (let pr = (if truthy submission_url
                     then validate_pull_request w st (str_of py submission_url) app_id
                     else ([], st))
           in case py_get manifest_data ''repo'' of
                Inl e \<Rightarrow> (Inl e, snd pr)
              | Inr repo_url \<Rightarrow>
                  (case repo_url of
                     YStr s \<Rightarrow>
                       if s \<noteq> [] \<and> py_strip s \<noteq> [] then
                         (let rp = validate_github_repo_url w (snd pr) s app_id
                          in (Inr (fst pr @ fst rp), snd rp))
                       else (Inr (fst pr), snd pr)
                   | _ \<Rightarrow> (Inr (fst pr), snd pr))))"

text \<open>
  A world for examples: GitHub knows one repository and one of its pull requests, and
  answers every request with the status \<open>code\<close> (403 when the rate limit is reached).
\<close>

definition example_urlparse :: "string \<Rightarrow> parsed_url option" where
  "example_urlparse u =
     (if u = ''https://github.com/getumbrel/umbrel-apps'' then
        Some \<lparr>scheme = ''https'', hostname = Some ''github.com'', url_path = ''/getumbrel/umbrel-apps''\<rparr>
      else if u = ''https://github.com/getumbrel/umbrel-apps/pull/7'' then
        Some \<lparr>scheme = ''https'', hostname = Some ''github.com'',
              url_path = ''/getumbrel/umbrel-apps/pull/7''\<rparr>
      else None)"

definition answering :: "nat \<Rightarrow> web" where
  "answering code = \<lparr>urlparse = example_urlparse, http_get = (\<lambda>n u. Some code)\<rparr>"

definition unreachable :: web where
  "unreachable = \<lparr>urlparse = example_urlparse, http_get = (\<lambda>n u. None)\<rparr>"

section \<open>Linting orchestrator (core/linter.py)\<close>

datatype AppStoreType = OFFICIAL | COMMUNITY

text \<open>\<open>LintingContext\<close>; its field \<open>app_id\<close> is \<open>ctx_app_id\<close> here.\<close>

record LintingContext =
  ctx_app_id :: "string option"
  app_store_type :: AppStoreType
  is_new_submission :: bool
  pull_request_url :: "string option"
  all_app_manifests :: "string list"

definition default_context :: LintingContext where
  "default_context =
     \<lparr>ctx_app_id = None, app_store_type = COMMUNITY, is_new_submission = False,
      pull_request_url = None, all_app_manifests = []\<rparr>"

text \<open>
  The fields of a constructed \<open>UmbrelAppManifest\<close> that the orchestrator reads. The
  submission URL is compared as a string.
\<close>

record manifest =
  m_submission :: string
  m_releaseNotes :: "string option"
  m_icon :: "string option"
  m_gallery :: "string list"
  m_port :: int

text \<open>
  The world outside the orchestrator: the file system (\<open>fs_is_file p\<close> is
  \<open>file_exists(p)\<close>, \<open>fs_read p\<close> the text of the file or the message of the \<open>OSError\<close>,
  \<open>fs_iterdir d\<close> the names of the entries of a directory, or the exception of \<open>iterdir\<close>), \<open>pathlib\<close> (\<open>path_name\<close>,
  \<open>path_parent\<close>), the YAML parser (\<open>safe_load\<close>: the document or the message of the
  \<open>YAMLError\<close>), the schema library (\<open>app_manifest_model data\<close> is the outcome of
  \<open>UmbrelAppManifest(**data)\<close>, the manifest or the text of the exception;
  \<open>store_manifest_model data\<close> is the text of the exception of
  \<open>UmbrelAppStoreManifest(**data)\<close>, if any), \<open>int(s)\<close> for a string (\<open>py_int\<close>), the
  interpreter and the network. \<open>compose_findings d a\<close> and \<open>structure_findings d a\<close> stand
  for the Findings of \<open>_validate_docker_compose\<close> and of \<open>_validate_directory_structure\<close>
  for the app \<open>a\<close> of the directory \<open>d\<close>.
\<close>

record world =
  fs_is_file :: "string \<Rightarrow> bool"
  fs_exists :: "string \<Rightarrow> bool"
  fs_is_dir :: "string \<Rightarrow> bool"
  fs_iterdir :: "string \<Rightarrow> py_exception + string list"
  fs_read :: "string \<Rightarrow> string + string"
  path_name :: "string \<Rightarrow> string"
  path_parent :: "string \<Rightarrow> string"
  safe_load :: "string \<Rightarrow> string + yaml"
  app_manifest_model :: "yaml \<Rightarrow> string + manifest"
  store_manifest_model :: "yaml \<Rightarrow> string option"
  py_int :: "string \<Rightarrow> int option"
  python :: interp
  internet :: web
  compose_findings :: "string \<Rightarrow> string \<Rightarrow> LintingError list"
  structure_findings :: "string \<Rightarrow> string \<Rightarrow> LintingError list"

text \<open>\<open>directory / name\<close>.\<close>

definition path_join :: "string \<Rightarrow> string \<Rightarrow> string" where
  "path_join d n = d @ ''/'' @ n"

text \<open>
  \<open>parse_yaml_with_error_handling\<close> (validators/yaml\_validator.py): the Finding, or the
  document.
\<close>

definition parse_yaml_with_error_handling :: "world \<Rightarrow> string \<Rightarrow> string \<Rightarrow> LintingError + yaml" where
  "parse_yaml_with_error_handling w content filename =
     (case safe_load w content of
        Inl e \<Rightarrow>
          Inl (mk_error ''invalid_yaml_syntax'' ERROR (filename @ '' is not a valid YAML file'')
                 e filename None)
      | Inr data \<Rightarrow> Inr data)"

text \<open>\<open>_validate_app_store_manifest\<close>.\<close>

definition validate_app_store_manifest :: "world \<Rightarrow> string \<Rightarrow> LintingError list" where
  "validate_app_store_manifest w manifest_path =
     (case fs_read w manifest_path of
        Inl e \<Rightarrow>
          [mk_error ''file_read_error'' ERROR ''Failed to read umbrel-app-store.yml'' e
             manifest_path None]
      | Inr content \<Rightarrow>
          (case parse_yaml_with_error_handling w content ''umbrel-app-store.yml'' of
             Inl parse_error \<Rightarrow> [parse_error]
           | Inr data \<Rightarrow>
               (case store_manifest_model w data of
                  Some e \<Rightarrow>
                    [mk_error ''schema_validation_error'' ERROR
                       ''umbrel-app-store.yml validation failed'' e ''umbrel-app-store.yml'' None]
                | None \<Rightarrow> [])))"

text \<open>\<open>lint_app_store\<close>.\<close>

definition lint_app_store :: "world \<Rightarrow> string \<Rightarrow> LintingContext \<Rightarrow> LintingResult" where
  "lint_app_store w directory context =
     (let result = empty_result;
          store_manifest_path = path_join directory ''umbrel-app-store.yml'';
          result1 =
            (if \<not> fs_is_file w store_manifest_path then
               (if app_store_type context = COMMUNITY then
                  add_error result
                    (mk_error ''missing_umbrel_app_store_yml'' ERROR
                       ''umbrel-app-store.yml does not exist''
                       ''For community app stores, the file umbrel-app-store.yml is required''
                       ''umbrel-app-store.yml'' None)
                else result)
             else add_errors result (validate_app_store_manifest w store_manifest_path))
      in if \<not> fs_is_file w (path_join directory ''README.md'') then
           add_error result1
             (mk_error ''missing_readme'' WARNING ''README.md does not exist''
                ''A README.md file is highly recommended to tell users, how to install your App Store and what apps are available''
                ''README.md'' None)
         else result1)"

text \<open>
  The text of the exception of the schema made into a Finding (the \<open>except\<close> branch of
  \<open>_validate_app_manifest\<close>). \<open>scan_error_lines\<close> is its loop over the lines: the
  field name found so far, and at the end the field name and the error detail.
  Letters are lowered over ASCII.
\<close>

definition keyword_line :: "string \<Rightarrow> bool" where
  "keyword_line l =
     (contains ''input should'' (lower l) \<or> contains ''field required'' (lower l)
      \<or> contains ''value error'' (lower l))"

fun scan_error_lines :: "string option \<Rightarrow> string list \<Rightarrow> string option \<times> string option" where
  "scan_error_lines field_name [] = (field_name, None)"
| "scan_error_lines field_name (raw # rest) =
     (let l = py_strip raw in
      if contains ''validation error'' (lower l) \<or> l = [] then scan_error_lines field_name rest
      else if \<not> starts_with l ''For further information'' \<and> \<not> keyword_line l then
        (if field_name = None then scan_error_lines (Some l) rest
         else scan_error_lines field_name rest)
      else if keyword_line l then (field_name, Some l)
      else scan_error_lines field_name rest)"

definition schema_error_finding :: "string \<Rightarrow> string \<Rightarrow> LintingError" where
  "schema_error_finding app_id error_message =
     (let generic =
            mk_error ''schema_validation_error'' ERROR ''umbrel-app.yml validation failed''
              error_message (app_id @ ''/umbrel-app.yml'') None
      in if contains ''validation error'' (lower error_message) then
           (case scan_error_lines None (split_on CHR 0x0A error_message) of
              (Some field_name, Some error_detail) \<Rightarrow>
                (let tm =
                       (if contains ''tagline'' (lower error_message)
                           \<and> contains ''period'' (lower error_message)
                        then (''Invalid tagline'', ''Taglines should not end with a period'')
                        else if contains ''input should be a valid string'' (lower error_detail)
                        then (''Invalid field '' @ quoted field_name,
                              ''The field '' @ quoted field_name
                                @ '' must be a string, but received an invalid value'')
                        else if contains ''field required'' (lower error_detail)
                        then (''Missing required field '' @ quoted field_name,
                              ''The required field '' @ quoted field_name @ '' is missing'')
                        else (''Invalid field '' @ quoted field_name, error_detail))
                 in mk_error ''schema_validation_error'' ERROR (fst tm) (snd tm)
                      (app_id @ ''/umbrel-app.yml'') (Some field_name))
            | _ \<Rightarrow> generic)
         else generic)"

text \<open>
  \<open>int(port)\<close> in \<open>_get_used_ports\<close>: \<open>None\<close> where it raises \<open>ValueError\<close> or
  \<open>TypeError\<close>.
\<close>

definition int_of_yaml :: "world \<Rightarrow> yaml \<Rightarrow> int option" where
  "int_of_yaml w v =
     (case v of
        YInt i \<Rightarrow> Some i
      | YBool b \<Rightarrow> Some (if b then 1 else 0)
      | YStr s \<Rightarrow> py_int w s
      | _ \<Rightarrow> None)"

text \<open>The value of a key of a dictionary, \<open>None\<close> when it is missing.\<close>

definition dict_get :: "(string \<times> yaml) list \<Rightarrow> string \<Rightarrow> yaml" where
  "dict_get kvs key = (case map_of kvs key of None \<Rightarrow> YNull | Some v \<Rightarrow> v)"

text \<open>\<open>_get_used_ports\<close>: the loop, with the dictionary built so far.\<close>

fun get_used_ports_loop ::
  "world \<Rightarrow> string \<Rightarrow> (int \<Rightarrow> string option) \<Rightarrow> string list \<Rightarrow> (int \<Rightarrow> string option)" where
  "get_used_ports_loop w current_app_id used_ports [] = used_ports"
| "get_used_ports_loop w current_app_id used_ports (manifest_content # rest) =
     (case parse_yaml_with_error_handling w manifest_content ''manifest'' of
        Inr (YMap kvs) \<Rightarrow>
          (let app_id = dict_get kvs ''id'';
               name = dict_get kvs ''name'';
               port = dict_get kvs ''port''
           in if kvs \<noteq> [] \<and> truthy app_id \<and> truthy name \<and> truthy port
                 \<and> app_id \<noteq> YStr current_app_id
              then (case int_of_yaml w port of
                      Some port_int \<Rightarrow>
                        get_used_ports_loop w current_app_id
                          (used_ports(port_int \<mapsto>
                             str_of (python w) name @ '' ('' @ str_of (python w) app_id @ '')''))
                          rest
                    | None \<Rightarrow> get_used_ports_loop w current_app_id used_ports rest)
              else get_used_ports_loop w current_app_id used_ports rest)
      | _ \<Rightarrow> get_used_ports_loop w current_app_id used_ports rest)"

definition get_used_ports :: "world \<Rightarrow> string list \<Rightarrow> string \<Rightarrow> (int \<Rightarrow> string option)" where
  "get_used_ports w all_manifests current_app_id =
     get_used_ports_loop w current_app_id (\<lambda>p. None) all_manifests"

text \<open>The checks of \<open>_validate_app_manifest\<close> for a new submission, for a manifest \<open>m\<close>.\<close>

definition new_submission_findings :: "string \<Rightarrow> LintingContext \<Rightarrow> manifest \<Rightarrow> LintingError list" where
  "new_submission_findings app_id context m =
     (if truthy_str (pull_request_url context) \<and> m_submission m \<noteq> the (pull_request_url context)
      then [mk_error ''invalid_submission_field'' ERROR
              (''Invalid submission field '' @ quoted (m_submission m))
              (''The submission field must be set to the URL of this pull request: ''
                 @ the (pull_request_url context))
              (app_id @ ''/umbrel-app.yml'') (Some ''submission'')]
      else [])
     @ (if truthy_str (m_releaseNotes m)
        then [mk_error ''filled_out_release_notes_on_first_submission'' ERROR
                (quoted ''releaseNotes'' @ '' needs to be empty for new app submissions'')
                (''The '' @ quoted ''releaseNotes'' @ '' field must be empty for new app submissions as it is being displayed to the user only in case of an update.'')
                (app_id @ ''/umbrel-app.yml'') (Some ''releaseNotes'')]
        else [])
     @ (if truthy_str (m_icon m) \<or> m_gallery m \<noteq> []
        then [mk_error ''filled_out_icon_or_gallery_on_first_submission'' WARNING
                (quoted ''icon'' @ '' and '' @ quoted ''gallery'' @ '' needs to be empty for new app submissions'')
                (''The '' @ quoted ''icon'' @ '' and '' @ quoted ''gallery'' @ '' fields must be empty for new app submissions as it is being created by the Umbrel team.'')
                (app_id @ ''/umbrel-app.yml'')
                (Some (if truthy_str (m_icon m) then ''icon'' else ''gallery''))]
        else [])"

text \<open>
  The end of \<open>_validate_app_manifest\<close>, from the schema validation on: \<open>errors\<close> are
  the Findings collected before it. When the schema rejects the document, the Finding
  is appended and \<open>manifest\<close> is \<open>None\<close>; the new-submission checks ask for a manifest;
  the duplicate-port check reads \<open>manifest.port\<close> whenever the context has manifests of
  other apps, and on \<open>None\<close> that raises \<open>AttributeError\<close>.
\<close>

definition manifest_checks ::
  "world \<Rightarrow> string \<Rightarrow> LintingContext \<Rightarrow> LintingError list \<Rightarrow> yaml
     \<Rightarrow> py_exception + LintingError list" where
  "manifest_checks w app_id context errors0 data =
     (let model = app_manifest_model w data;
          manifest = (case model of Inl e \<Rightarrow> None | Inr m \<Rightarrow> Some m);
          errors1 = (case model of
                       Inl e \<Rightarrow> errors0 @ [schema_error_finding app_id e]
                     | Inr m \<Rightarrow> errors0);
          errors2 = (case manifest of
                       Some m \<Rightarrow>
                         if is_new_submission context
                         then errors1 @ new_submission_findings app_id context m
                         else errors1
                     | None \<Rightarrow> errors1)
      in if all_app_manifests context \<noteq> [] then
           (case manifest of
              None \<Rightarrow> Inl AttributeError
            | Some m \<Rightarrow>
                (case get_used_ports w (all_app_manifests context) app_id (m_port m) of
                   Some app_name \<Rightarrow>
                     Inr (errors2 @
                       [mk_error ''duplicate_ui_port'' ERROR
                          (''Port '' @ str_int (m_port m) @ '' is already used by '' @ app_name)
                          ''Each app must use a unique port''
                          (app_id @ ''/umbrel-app.yml'') (Some ''port'')])
                 | None \<Rightarrow> Inr errors2))
         else Inr errors2)"

text \<open>\<open>_validate_app_manifest\<close>: the Findings, or the exception that leaves it.\<close>

definition validate_app_manifest ::
  "world \<Rightarrow> github_validator \<Rightarrow> string \<Rightarrow> string \<Rightarrow> LintingContext
     \<Rightarrow> (py_exception + LintingError list) \<times> github_validator" where
  "validate_app_manifest w st manifest_path app_id context =
     (if \<not> fs_is_file w manifest_path then
        (Inr [mk_error ''missing_umbrel_app_yml'' ERROR ''umbrel-app.yml does not exist''
                (''Every app needs a manifest file called '' @ quoted ''umbrel-app.yml''
                   @ '' at the root of the app directory'')
                (app_id @ ''/umbrel-app.yml'') None], st)
      else
        (case fs_read w manifest_path of
           Inl e \<Rightarrow>
             (Inr [mk_error ''file_read_error'' ERROR ''Failed to read umbrel-app.yml'' e
                     (app_id @ ''/umbrel-app.yml'') None], st)
         | Inr content \<Rightarrow>
             (case parse_yaml_with_error_handling w content (app_id @ ''/umbrel-app.yml'') of
                Inl parse_error \<Rightarrow> (Inr [parse_error], st)
              | Inr data \<Rightarrow>
                  (let gh = validate_github_urls (internet w) (python w) st data app_id
                   in case fst gh of
                        Inl e \<Rightarrow> (Inl e, snd gh)
                      | Inr github_errors \<Rightarrow>
                          (manifest_checks w app_id context github_errors data, snd gh)))))"

text \<open>\<open>lint_app\<close>: the Report, or the exception that leaves it.\<close>

definition lint_app ::
  "world \<Rightarrow> github_validator \<Rightarrow> string \<Rightarrow> string \<Rightarrow> LintingContext
     \<Rightarrow> (py_exception + LintingResult) \<times> github_validator" where
  "lint_app w st directory app_id context =
     (let app_directory = path_join directory app_id in
      if \<not> fs_exists w app_directory then
        (Inr (add_error empty_result
                (mk_error ''app_directory_not_found'' ERROR
                   (''App directory not found: '' @ app_id)
                   (''App with id '' @ app_id @ '' does not exist'') app_id None)), st)
      else
        (let mf = validate_app_manifest w st (path_join app_directory ''umbrel-app.yml'')
                    app_id (context\<lparr>ctx_app_id := Some app_id\<rparr>)
         in case fst mf of
              Inl e \<Rightarrow> (Inl e, snd mf)
            | Inr manifest_errors \<Rightarrow>
                (Inr (add_errors
                        (add_errors (add_errors empty_result manifest_errors)
                           (compose_findings w directory app_id))
                        (structure_findings w directory app_id)), snd mf)))"

text \<open>
  The merge of \<open>lint_all_apps\<close>: \<open>result.errors.extend(other.errors)\<close> and
  \<open>result.success = result.success and other.success\<close>.
\<close>

definition merge_result :: "LintingResult \<Rightarrow> LintingResult \<Rightarrow> LintingResult" where
  "merge_result result other =
     result\<lparr>errors := errors result @ errors other, success := (success result \<and> success other)\<rparr>"

text \<open>The loop of \<open>lint_all_apps\<close> over the app directories.\<close>

fun lint_apps_loop ::
  "world \<Rightarrow> github_validator \<Rightarrow> string \<Rightarrow> LintingContext \<Rightarrow> LintingResult \<Rightarrow> string list
     \<Rightarrow> (py_exception + LintingResult) \<times> github_validator" where
  "lint_apps_loop w st directory context result [] = (Inr result, st)"
| "lint_apps_loop w st directory context result (app_id # rest) =
     (let r = lint_app w st directory app_id context
      in case fst r of
           Inl e \<Rightarrow> (Inl e, snd r)
         | Inr app_result \<Rightarrow>
             lint_apps_loop w (snd r) directory context (merge_result result app_result) rest)"

text \<open>The app directories that \<open>lint_all_apps\<close> finds in a store directory.\<close>

definition app_directories :: "world \<Rightarrow> string \<Rightarrow> string list \<Rightarrow> string list" where
  "app_directories w directory names =
     filter (\<lambda>name. fs_is_dir w (path_join directory name) \<and> \<not> starts_with name ''.''
                     \<and> fs_exists w (path_join (path_join directory name) ''umbrel-app.yml''))
       names"

text \<open>\<open>lint_all_apps\<close>.\<close>

definition lint_all_apps ::
  "world \<Rightarrow> github_validator \<Rightarrow> string \<Rightarrow> LintingContext
     \<Rightarrow> (py_exception + LintingResult) \<times> github_validator" where
  "lint_all_apps w st directory context =
     (if fs_exists w (path_join directory ''umbrel-app.yml'') then
        lint_app w st (path_parent w directory) (path_name w directory) context
      else
        (case fs_iterdir w directory of
           Inl e \<Rightarrow> (Inl e, st)
         | Inr names \<Rightarrow>
             lint_apps_loop w st directory context
               (merge_result empty_result (lint_app_store w directory context))
               (app_directories w directory names)))"

text \<open>
  A world for examples. The directory \<open>store\<close> has one app, \<open>demo\<close>, whose manifest
  \<open>id: demo\<close> has none of the other required fields, so that the schema rejects it; the
  directory \<open>empty-store\<close> has nothing in it. The manifest of another app is known to
  the parser.
\<close>

definition example_safe_load :: "string \<Rightarrow> string + yaml" where
  "example_safe_load content =
     (if content = ''id: demo'' then Inr (YMap [(''id'', YStr ''demo'')])
      else if content = ''{id: other, name: Other, port: 3000}'' then
        Inr (YMap [(''id'', YStr ''other''), (''name'', YStr ''Other''), (''port'', YInt 3000)])
      else Inl ''could not parse'')"

definition example_world :: world where
  "example_world =
     \<lparr>fs_is_file = (\<lambda>p. p = ''store/demo/umbrel-app.yml''),
      fs_exists = (\<lambda>p. p \<in> set [''store'', ''store/demo'', ''store/demo/umbrel-app.yml'',
                                  ''empty-store'']),
      fs_is_dir = (\<lambda>p. p \<in> set [''store'', ''store/demo'', ''empty-store'']),
      fs_iterdir = (\<lambda>d. if d = ''store'' then Inr [''demo'']
                         else if d = ''empty-store'' then Inr [] else Inl OSError),
      fs_read = (\<lambda>p. if p = ''store/demo/umbrel-app.yml'' then Inr ''id: demo''
                      else Inl ''No such file or directory''),
      path_name = (\<lambda>p. p),
      path_parent = (\<lambda>p. ''.''),
      safe_load = example_safe_load,
      app_manifest_model = (\<lambda>data. Inl ''13 validation errors for UmbrelAppManifest''),
      store_manifest_model = (\<lambda>data. None),
      py_int = (\<lambda>s. None),
      python = plain_interp,
      internet = unreachable,
      compose_findings = (\<lambda>d a. []),
      structure_findings = (\<lambda>d a. [])\<rparr>"

definition context_with_other_apps :: LintingContext where
  "context_with_other_apps =
     default_context\<lparr>all_app_manifests := [''{id: other, name: Other, port: 3000}'']\<rparr>"

text \<open>The Report returned, \<open>None\<close> when an exception leaves the function.\<close>

definition returned :: "('e + 'a) \<times> 's \<Rightarrow> 'a option" where
  "returned r = (case fst r of Inl e \<Rightarrow> None | Inr x \<Rightarrow> Some x)"

text \<open>The counters of a Report, and the numbers of its Findings of the three severities.\<close>

definition counters :: "LintingResult \<Rightarrow> int \<times> int \<times> int" where
  "counters r = (total_errors r, total_warnings r, total_info r)"

definition counted :: "LintingResult \<Rightarrow> int \<times> int \<times> int" where
  "counted r =
     (count_severity ERROR (errors r), count_severity WARNING (errors r),
      count_severity INFO (errors r))"

section \<open>Properties of the Report\<close>

lemma add_error_errors: "errors (add_error r e) = errors r @ [e]"
  by (simp add: add_error_def Let_def)

lemma add_error_success:
  "success (add_error r e) = (success r \<and> severity e \<noteq> ERROR)"
  by (simp add: add_error_def Let_def)

lemma add_errors_success:
  "success (add_errors r es) = (success r \<and> \<not> list_ex (\<lambda>e. severity e = ERROR) es)"
  unfolding add_errors_def
  by (induction es arbitrary: r) (auto simp: add_error_success)

lemma add_errors_errors: "errors (add_errors r es) = errors r @ es"
  unfolding add_errors_def
  by (induction es arbitrary: r) (auto simp: add_error_errors)

text \<open>
  Claim C2. A Report built from the empty Report by inserting the Findings \<open>es\<close> one at a
  time with \<open>add_error\<close>, in whatever order the list has them, has \<open>success\<close> false exactly
  when one of the inserted Findings has severity ERROR.
\<close>

theorem success_iff_no_error_inserted:
  "(\<not> success (add_errors empty_result es)) = list_ex (\<lambda>e. severity e = ERROR) es"
  by (simp add: add_errors_success empty_result_def)

theorem success_iff_no_error_inserted_witness:
  "\<not> success (add_errors empty_result
       [mk_error ''missing_readme'' WARNING ''t'' ''m'' ''README.md'' None,
        mk_error ''file_read_error'' ERROR ''t'' ''m'' ''f'' None])
   \<and> success (add_errors empty_result
       [mk_error ''missing_readme'' WARNING ''t'' ''m'' ''README.md'' None])"
  using success_iff_no_error_inserted
    [of "[mk_error ''missing_readme'' WARNING ''t'' ''m'' ''README.md'' None,
          mk_error ''file_read_error'' ERROR ''t'' ''m'' ''f'' None]"]
    success_iff_no_error_inserted
    [of "[mk_error ''missing_readme'' WARNING ''t'' ''m'' ''README.md'' None]"]
  by (simp add: mk_error_def)

section \<open>Properties of the mocker\<close>

lemma match_variable_placeholder:
  "match_variable s \<noteq> None \<Longrightarrow> placeholder_at s"
  by (cases s; cases "tl s")
    (auto simp: match_variable_def placeholder_at_def split: if_splits list.splits)

lemma findall_no_placeholder:
  "\<not> has_placeholder s \<Longrightarrow> findall_from k s = []"
proof (induction s arbitrary: k)
  case Nil
  then show ?case by simp
next
  case (Cons c cs)
  from Cons.prems have "\<not> placeholder_at (c # cs)" and r: "\<not> has_placeholder cs"
    by simp_all
  then have m: "match_variable (c # cs) = None"
    using match_variable_placeholder [of "c # cs"] by blast
  show ?case
    by (cases k) (simp_all add: m Cons.IH [OF r])
qed

lemma mock_no_placeholder:
  "\<not> has_placeholder x \<Longrightarrow> mock_variables rnd x = x"
  by (simp add: mock_variables_def mock_variables_from_def extract_variables_def
      findall_variables_def findall_no_placeholder)

text \<open>
  Claim C8. A text without a placeholder (no \<open>$NAME\<close> and no \<open>${NAME}\<close>) is left as it
  is by \<open>mock_variables\<close>, whatever the random generator; so mocking a text \<open>y\<close> again,
  when the mocked form of \<open>y\<close> has no placeholder left, gives the mocked form of \<open>y\<close>.
\<close>

theorem mock_idempotent_on_mocked_text:
  "(\<not> has_placeholder x \<longrightarrow> mock_variables rnd x = x) \<and>
   (\<not> has_placeholder (mock_variables rnd y) \<longrightarrow>
      mock_variables rnd' (mock_variables rnd y) = mock_variables rnd y)"
  using mock_no_placeholder by blast

theorem mock_idempotent_on_mocked_text_witness:
  "\<not> has_placeholder ''image: nginx'' \<and>
   mock_variables (const_rnd 0) ''image: nginx'' = ''image: nginx'' \<and>
   has_placeholder ''host: $APP_IP'' \<and>
   \<not> has_placeholder (mock_variables (const_rnd 0) ''host: $APP_IP'') \<and>
   mock_variables (const_rnd 1) (mock_variables (const_rnd 0) ''host: $APP_IP'')
     = mock_variables (const_rnd 0) ''host: $APP_IP''"
proof -
  have a: "\<not> has_placeholder ''image: nginx''" by code_simp
  have b: "mock_variables (const_rnd 0) ''host: $APP_IP'' = ''host: 10.10.10.10''"
    by code_simp
  have c: "\<not> has_placeholder (mock_variables (const_rnd 0) ''host: $APP_IP'')"
    unfolding b by code_simp
  have d: "has_placeholder ''host: $APP_IP''" by code_simp
  show ?thesis
    using a c d
      mock_idempotent_on_mocked_text
        [of "''image: nginx''" "const_rnd 0" "''host: $APP_IP''" "const_rnd 1"]
    by blast
qed

lemma find_mock_no_draw:
  "\<not> draws_random v \<Longrightarrow> find_mock r1 k1 v = (fst (find_mock r2 k2 v), k1)"
  by (simp add: find_mock_def draws_random_def)

lemma find_mocks_no_draw:
  "list_all (\<lambda>v. \<not> draws_random (variable v)) vs \<Longrightarrow>
   fst (find_mocks r1 k1 vs) = fst (find_mocks r2 k2 vs)"
proof (induction vs arbitrary: k1 k2)
  case Nil
  then show ?case by simp
next
  case (Cons v vs)
  then have nd: "\<not> draws_random (variable v)"
    and rest: "list_all (\<lambda>v. \<not> draws_random (variable v)) vs" by simp_all
  have e: "fst (find_mock r1 k1 (variable v)) = fst (find_mock r2 k2 (variable v))"
    using find_mock_no_draw [OF nd, of r1 k1 r2 k2] by simp
  have ih: "fst (find_mocks r1 (snd (find_mock r1 k1 (variable v))) vs)
          = fst (find_mocks r2 (snd (find_mock r2 k2 (variable v))) vs)"
    by (rule Cons.IH [OF rest])
  show ?case
    by (simp add: Let_def e ih)
qed

lemma randint_port_range: "1024 \<le> randint 1024 65535 e \<and> randint 1024 65535 e \<le> 65535"
  by (simp add: randint_def)

text \<open>
  Claim C4, as stated: any two evaluations of \<open>mock_variables\<close> on the same text agree.
  Two evaluations in which \<open>random.randint\<close> returns 1024 and 1025 differ on a text with
  a \<open>_PORT\<close> variable.
\<close>

theorem mock_not_deterministic:
  "mock_variables (const_rnd 0) ''port: $APP_PORT''
     \<noteq> mock_variables (const_rnd 1) ''port: $APP_PORT''"
  by code_simp

text \<open>
  Claim C4, amended. When no variable extracted from the text takes the \<open>_PORT\<close> branch
  (its name has \<open>_PORT\<close> and not \<open>_IP\<close>), any two evaluations of \<open>mock_variables\<close> on
  the text return the same output, whatever the random generator does.
\<close>

theorem mock_deterministic_without_port:
  "list_all (\<lambda>v. \<not> draws_random (variable v)) (extract_variables x) \<Longrightarrow>
   mock_variables r1 x = mock_variables r2 x"
  using find_mocks_no_draw [of "extract_variables x" r1 0 r2 0]
  by (simp add: mock_variables_def mock_variables_from_def Let_def)

theorem mock_deterministic_without_port_witness:
  "list_all (\<lambda>v. \<not> draws_random (variable v))
     (extract_variables ''host: $APP_IP user: $DB_USER'') \<and>
   mock_variables (const_rnd 0) ''host: $APP_IP user: $DB_USER''
     = mock_variables (const_rnd 1) ''host: $APP_IP user: $DB_USER''"
proof -
  have h: "list_all (\<lambda>v. \<not> draws_random (variable v))
     (extract_variables ''host: $APP_IP user: $DB_USER'')"
    by code_simp
  show ?thesis
    using h mock_deterministic_without_port [OF h, of "const_rnd 0" "const_rnd 1"] by simp
qed

lemma find_mock_table_order:
  "find_mock rnd k v =
     (case first_keyword v of
        None \<Rightarrow> (''mocked'', k)
      | Some e \<Rightarrow>
          if fst e = ''_PORT'' then (str_int (randint 1024 65535 (rnd k)), Suc k)
          else (snd e, k))"
  by (simp add: find_mock_def first_keyword_def mock_table_def)

text \<open>
  Claim C5, as stated: a variable name with \<open>_HOST\<close> and \<open>_NAME\<close> and none of \<open>_IP\<close>,
  \<open>_PORT\<close>, \<open>_PASS\<close>, \<open>_USER\<close>, \<open>_DIR\<close>, \<open>_PATH\<close>, \<open>_ROOT\<close>, \<open>_CONFIG\<close> gets the
  \<open>_HOST\<close> token. The name \<open>APP_HOST_NAME\<close> gets the \<open>_NAME\<close> token.
\<close>

theorem host_name_priority_counterexample:
  "contains ''_HOST'' ''APP_HOST_NAME'' \<and> contains ''_NAME'' ''APP_HOST_NAME'' \<and>
   \<not> contains ''_IP'' ''APP_HOST_NAME'' \<and> \<not> contains ''_PORT'' ''APP_HOST_NAME'' \<and>
   \<not> contains ''_PASS'' ''APP_HOST_NAME'' \<and> \<not> contains ''_USER'' ''APP_HOST_NAME'' \<and>
   \<not> contains ''_DIR'' ''APP_HOST_NAME'' \<and> \<not> contains ''_PATH'' ''APP_HOST_NAME'' \<and>
   \<not> contains ''_ROOT'' ''APP_HOST_NAME'' \<and> \<not> contains ''_CONFIG'' ''APP_HOST_NAME'' \<and>
   fst (find_mock (const_rnd 0) 0 ''APP_HOST_NAME'') = ''name'' \<and>
   fst (find_mock (const_rnd 0) 0 ''APP_HOST_NAME'') \<noteq> ''host''"
  by code_simp

text \<open>
  Claim C5, amended. The chain of \<open>_find_mocks\<close> is the keyword table in the order
  \<open>_IP\<close>, \<open>_PORT\<close>, \<open>_PASS\<close>, \<open>_USER\<close>, \<open>_DIR\<close>, \<open>_PATH\<close>, \<open>_SERVICE\<close>, \<open>_SEED\<close>,
  \<open>_CONFIG\<close>, \<open>_MODE\<close>, \<open>_NETWORK\<close>, \<open>_DOMAIN\<close>, \<open>_NAME\<close>, \<open>_VERSION\<close>, \<open>_ROOT\<close>,
  \<open>_KEY\<close>, \<open>_SECRET\<close>, \<open>_TOKEN\<close>, \<open>_HOST\<close>: the first keyword of the table that occurs
  in the name decides. So a name with \<open>_HOST\<close> and \<open>_NAME\<close> and none of the twelve
  keywords before \<open>_NAME\<close> gets the \<open>_NAME\<close> token \<open>name\<close>, and the \<open>_HOST\<close> token is
  chosen only for a name with none of the other eighteen keywords.
\<close>

theorem host_name_priority:
  "find_mock rnd k v =
     (case first_keyword v of
        None \<Rightarrow> (''mocked'', k)
      | Some e \<Rightarrow>
          if fst e = ''_PORT'' then (str_int (randint 1024 65535 (rnd k)), Suc k)
          else (snd e, k)) \<and>
   (contains ''_HOST'' v \<and> contains ''_NAME'' v \<and>
    list_all (\<lambda>kw. \<not> contains kw v)
      [''_IP'', ''_PORT'', ''_PASS'', ''_USER'', ''_DIR'', ''_PATH'', ''_SERVICE'', ''_SEED'',
       ''_CONFIG'', ''_MODE'', ''_NETWORK'', ''_DOMAIN'']
    \<longrightarrow> fst (find_mock rnd k v) = ''name'') \<and>
   (contains ''_HOST'' v \<and>
    list_all (\<lambda>kw. \<not> contains kw v)
      [''_IP'', ''_PORT'', ''_PASS'', ''_USER'', ''_DIR'', ''_PATH'', ''_SERVICE'', ''_SEED'',
       ''_CONFIG'', ''_MODE'', ''_NETWORK'', ''_DOMAIN'', ''_NAME'', ''_VERSION'', ''_ROOT'',
       ''_KEY'', ''_SECRET'', ''_TOKEN'']
    \<longrightarrow> fst (find_mock rnd k v) = ''host'')"
proof (intro conjI impI)
  show "find_mock rnd k v =
     (case first_keyword v of
        None \<Rightarrow> (''mocked'', k)
      | Some e \<Rightarrow>
          if fst e = ''_PORT'' then (str_int (randint 1024 65535 (rnd k)), Suc k)
          else (snd e, k))"
    by (rule find_mock_table_order)
next
  assume "contains ''_HOST'' v \<and> contains ''_NAME'' v \<and>
    list_all (\<lambda>kw. \<not> contains kw v)
      [''_IP'', ''_PORT'', ''_PASS'', ''_USER'', ''_DIR'', ''_PATH'', ''_SERVICE'', ''_SEED'',
       ''_CONFIG'', ''_MODE'', ''_NETWORK'', ''_DOMAIN'']"
  then show "fst (find_mock rnd k v) = ''name''"
    by (simp add: find_mock_def)
next
  assume "contains ''_HOST'' v \<and>
    list_all (\<lambda>kw. \<not> contains kw v)
      [''_IP'', ''_PORT'', ''_PASS'', ''_USER'', ''_DIR'', ''_PATH'', ''_SERVICE'', ''_SEED'',
       ''_CONFIG'', ''_MODE'', ''_NETWORK'', ''_DOMAIN'', ''_NAME'', ''_VERSION'', ''_ROOT'',
       ''_KEY'', ''_SECRET'', ''_TOKEN'']"
  then show "fst (find_mock rnd k v) = ''host''"
    by (simp add: find_mock_def)
qed

theorem host_name_priority_witness:
  "contains ''_HOST'' ''APP_HOST_NAME'' \<and> contains ''_NAME'' ''APP_HOST_NAME'' \<and>
   fst (find_mock (const_rnd 0) 0 ''APP_HOST_NAME'') = ''name'' \<and>
   contains ''_HOST'' ''APP_HOST'' \<and>
   fst (find_mock (const_rnd 0) 0 ''APP_HOST'') = ''host''"
proof -
  have a: "contains ''_HOST'' ''APP_HOST_NAME'' \<and> contains ''_NAME'' ''APP_HOST_NAME'' \<and>
    list_all (\<lambda>kw. \<not> contains kw ''APP_HOST_NAME'')
      [''_IP'', ''_PORT'', ''_PASS'', ''_USER'', ''_DIR'', ''_PATH'', ''_SERVICE'', ''_SEED'',
       ''_CONFIG'', ''_MODE'', ''_NETWORK'', ''_DOMAIN'']"
    by code_simp
  have b: "contains ''_HOST'' ''APP_HOST'' \<and>
    list_all (\<lambda>kw. \<not> contains kw ''APP_HOST'')
      [''_IP'', ''_PORT'', ''_PASS'', ''_USER'', ''_DIR'', ''_PATH'', ''_SERVICE'', ''_SEED'',
       ''_CONFIG'', ''_MODE'', ''_NETWORK'', ''_DOMAIN'', ''_NAME'', ''_VERSION'', ''_ROOT'',
       ''_KEY'', ''_SECRET'', ''_TOKEN'']"
    by code_simp
  show ?thesis
    using a b host_name_priority [of "const_rnd 0" 0 "''APP_HOST_NAME''"]
      host_name_priority [of "const_rnd 0" 0 "''APP_HOST''"]
    by blast
qed

section \<open>Properties of image references\<close>

lemma hex_not_sep: "is_hex c \<Longrightarrow> c \<noteq> CHR ''@'' \<and> c \<noteq> CHR '':'' \<and> c \<noteq> CHR ''/''"
  by (auto simp: is_hex_def is_digit_def)

lemma rsplit_last_append:
  assumes "list_all (\<lambda>c. c \<noteq> sep) h"
  shows "rsplit_last sep (p @ sep # h) = Some (p, h)"
proof -
  have a: "\<forall>c \<in> set (rev h). c \<noteq> sep" using assms by (simp add: list_all_iff)
  have t: "takeWhile (\<lambda>c. c \<noteq> sep) (rev h @ sep # rev p) = rev h"
    using a by (simp add: takeWhile_append2 del: set_rev)
  have d: "dropWhile (\<lambda>c. c \<noteq> sep) (rev h @ sep # rev p) = sep # rev p"
    using a by (simp add: dropWhile_append2 del: set_rev)
  show ?thesis
    unfolding rsplit_last_def by (simp add: t d)
qed

text \<open>
  Claim C7. For every string \<open>h\<close> of 64 hexadecimal digits, parsing
  \<open>registry.example.com/ns/app:1.2.3@sha256:h\<close> gives the host \<open>registry.example.com\<close>, the
  path \<open>ns/app\<close>, the tag \<open>1.2.3\<close> and the digest \<open>sha256:h\<close>, and writing the image
  reference out again gives the string parsed.
\<close>

theorem image_round_trip:
  assumes "length h = 64" and "list_all is_hex h"
  shows "image_str (from_string (''registry.example.com/ns/app:1.2.3@sha256:'' @ h))
           = ''registry.example.com/ns/app:1.2.3@sha256:'' @ h
         \<and> from_string (''registry.example.com/ns/app:1.2.3@sha256:'' @ h)
           = \<lparr>host = ''registry.example.com'', path = ''ns/app'', tag = Some ''1.2.3'',
              digest = Some (''sha256:'' @ h)\<rparr>"
proof -
  have nh: "list_all (\<lambda>c. c \<noteq> CHR ''@'') (''sha256:'' @ h)"
    using assms(2) hex_not_sep by (auto simp: list_all_iff)
  have s1: "rsplit_last CHR ''@'' (''registry.example.com/ns/app:1.2.3'' @ CHR ''@'' # (''sha256:'' @ h))
              = Some (''registry.example.com/ns/app:1.2.3'', ''sha256:'' @ h)"
    by (rule rsplit_last_append [OF nh])
  have s2: "rsplit_last CHR '':'' ''registry.example.com/ns/app:1.2.3''
              = Some (''registry.example.com/ns/app'', ''1.2.3'')"
    by (simp add: rsplit_last_def)
  have p: "from_string (''registry.example.com/ns/app:1.2.3@sha256:'' @ h)
           = \<lparr>host = ''registry.example.com'', path = ''ns/app'', tag = Some ''1.2.3'',
              digest = Some (''sha256:'' @ h)\<rparr>"
    using s1 by (simp add: from_string_def s2)
  show ?thesis
    unfolding p by (simp add: image_str_def truthy_str_def)
qed


theorem image_round_trip_witness:
  "image_str (from_string
     ''registry.example.com/ns/app:1.2.3@sha256:0123456789abcdef0123456789abcdef0123456789ABCDEF0123456789abcdef'')
   = ''registry.example.com/ns/app:1.2.3@sha256:0123456789abcdef0123456789abcdef0123456789ABCDEF0123456789abcdef''"
proof -
  have l: "length ''0123456789abcdef0123456789abcdef0123456789ABCDEF0123456789abcdef'' = 64"
    by simp
  have x: "list_all is_hex ''0123456789abcdef0123456789abcdef0123456789ABCDEF0123456789abcdef''"
    by code_simp
  have "image_str (from_string (''registry.example.com/ns/app:1.2.3@sha256:''
          @ ''0123456789abcdef0123456789abcdef0123456789ABCDEF0123456789abcdef''))
        = ''registry.example.com/ns/app:1.2.3@sha256:''
          @ ''0123456789abcdef0123456789abcdef0123456789ABCDEF0123456789abcdef''"
    using image_round_trip [OF l x] by blast
  then show ?thesis by simp
qed

section \<open>Properties of the store manifest identifier\<close>

lemma lower_not_upper: "is_lower c \<or> c = CHR ''-'' \<or> c = CHR 0x0A \<Longrightarrow> \<not> is_upper c"
proof
  assume h: "is_lower c \<or> c = CHR ''-'' \<or> c = CHR 0x0A" and u: "is_upper c"
  from h show False
  proof (elim disjE)
    assume "is_lower c"
    then have "CHR ''a'' \<le> c" by (simp add: is_lower_def)
    moreover have "c \<le> CHR ''Z''" using u by (simp add: is_upper_def)
    ultimately have "CHR ''a'' \<le> CHR ''Z''" by (rule order_trans)
    then show False by simp
  next
    assume "c = CHR ''-''"
    with u show False by (simp add: is_upper_def)
  next
    assume "c = CHR 0x0A"
    with u show False by (simp add: is_upper_def)
  qed
qed

lemma id_groups_chars: "id_groups b s \<Longrightarrow> list_all (\<lambda>c. is_lower c \<or> c = CHR ''-'') s"
  by (induction s arbitrary: b) (auto split: if_splits)


lemma store_id_format_chars:
  assumes "store_id_format v"
  shows "list_all (\<lambda>c. is_lower c \<or> c = CHR ''-'' \<or> c = CHR 0x0A) v"
proof -
  consider (whole) "id_groups False v"
    | (cut) "v \<noteq> []" "last v = CHR 0x0A" "id_groups False (butlast v)"
    using assms by (auto simp: store_id_format_def re_end_variants_def split: if_splits)
  then show ?thesis
  proof cases
    case whole
    then show ?thesis using id_groups_chars [of False v] by (auto simp: list_all_iff)
  next
    case cut
    have "v = butlast v @ [last v]" using cut(1) by simp
    then have "set v = set (butlast v) \<union> {last v}"
      by (metis list.simps(15) set_append empty_set)
    then show ?thesis
      using id_groups_chars [OF cut(3)] cut(2) by (auto simp: list_all_iff)
  qed
qed

lemma starts_with_lower:
  assumes "list_all (\<lambda>c. is_lower c \<or> c = CHR ''-'' \<or> c = CHR 0x0A) v"
    and "starts_with (lower v) p"
  shows "starts_with v p"
  using assms
proof (induction v p rule: starts_with.induct)
  case (3 c cs p ps)
  then have "\<not> is_upper c" using lower_not_upper by simp
  then have "ascii_lower c = c" by (simp add: ascii_lower_def)
  with 3 show ?case by (simp add: lower_def)
qed (simp_all add: lower_def)


lemma reserved_any_case_rejected:
  assumes r: "starts_with_reserved_any_case v"
  shows "isl (store_validate_id v)"
proof (cases "store_id_format v")
  case True
  have "starts_with (lower v) ''umbrel-app-store''"
    using r by (simp only: starts_with_reserved_any_case_def)
  then have "starts_with v ''umbrel-app-store''"
    by (rule starts_with_lower [OF store_id_format_chars [OF True]])
  then show ?thesis by (simp add: store_validate_id_def)
next
  case False
  then show ?thesis by (simp add: store_validate_id_def)
qed

text \<open>
  Claim C9. The id \<open>My_Store\<close> fails the format rule of the store manifest id, the id
  \<open>my-store\<close> passes it and the whole field validation, and every id that starts with
  \<open>umbrel-app-store\<close> in some letter case is rejected: in lower case by the check of the
  reserved prefix, with an upper-case letter by the format rule.
\<close>

theorem store_id_rules:
  "store_validate_id ''My_Store''
     = Inl (ValueError ''The id of the app should contain only alphabets ('a' to 'z') and dashes ('-').'')
   \<and> \<not> store_id_format ''My_Store''
   \<and> store_validate_id ''my-store'' = Inr ''my-store''
   \<and> store_id_format ''my-store''
   \<and> store_manifest_id ''my-store'' = Inr ''my-store''
   \<and> (starts_with_reserved_any_case v \<longrightarrow>
        isl (store_validate_id v) \<and> isl (store_manifest_id v))"
proof (intro conjI impI)
  show "store_validate_id ''My_Store''
     = Inl (ValueError ''The id of the app should contain only alphabets ('a' to 'z') and dashes ('-').'')"
    by code_simp
  show "\<not> store_id_format ''My_Store''" by code_simp
  show "store_validate_id ''my-store'' = Inr ''my-store''" by code_simp
  show "store_id_format ''my-store''" by code_simp
  show "store_manifest_id ''my-store'' = Inr ''my-store''" by code_simp
next
  assume r: "starts_with_reserved_any_case v"
  show "isl (store_validate_id v)" by (rule reserved_any_case_rejected [OF r])
  then show "isl (store_manifest_id v)" by (simp add: store_manifest_id_def)
qed

theorem store_id_rules_witness:
  "starts_with_reserved_any_case ''Umbrel-App-Store-Extra'' \<and>
   isl (store_validate_id ''Umbrel-App-Store-Extra'') \<and>
   starts_with_reserved_any_case ''umbrel-app-store'' \<and>
   isl (store_manifest_id ''umbrel-app-store'')"
proof -
  have a: "starts_with_reserved_any_case ''Umbrel-App-Store-Extra''" by code_simp
  have b: "starts_with_reserved_any_case ''umbrel-app-store''" by code_simp
  have c: "isl (store_validate_id ''Umbrel-App-Store-Extra'')"
    using a store_id_rules [of "''Umbrel-App-Store-Extra''"] by simp
  have d: "isl (store_manifest_id ''umbrel-app-store'')"
    using b store_id_rules [of "''umbrel-app-store''"] by simp
  show ?thesis by (intro conjI a b c d)
qed

section \<open>Properties of image validation\<close>



























section \<open>Properties of the GitHub checks\<close>

lemma cached_answer_repeats:
  "gh_cache st url = Some b \<Longrightarrow> pr_exists w st url = (b, st) \<and> repo_exists w st url = (b, st)"
  by (simp add: pr_exists_def repo_exists_def)

lemma pr_exists_request_fails:
  assumes "gh_cache st url = None"
    and "http_get w (length (gh_requests st)) (pr_request_url w url) = None"
  shows "fst (pr_exists w st url) \<and> gh_cache (snd (pr_exists w st url)) url = Some True"
  using assms by (simp add: pr_exists_def record_answer_def)

lemma repo_exists_request_fails:
  assumes "gh_cache st url = None"
    and "http_get w (length (gh_requests st)) url = None"
  shows "fst (repo_exists w st url) \<and> gh_cache (snd (repo_exists w st url)) url = Some True"
  using assms by (simp add: repo_exists_def record_answer_def)

lemma pr_check_after_failed_request:
  assumes "gh_cache st url = None"
    and "http_get w (length (gh_requests st)) (pr_request_url w url) = None"
    and "is_github_pr_url w url" and "is_github_pr_url w' url"
  shows "fst (validate_pull_request w st url app_id) = []
       \<and> fst (validate_pull_request w' (snd (validate_pull_request w st url app_id)) url app_id) = []"
proof -
  let ?st = "snd (pr_exists w st url)"
  have a: "fst (pr_exists w st url)" and c: "gh_cache ?st url = Some True"
    using pr_exists_request_fails [OF assms(1,2)] by simp_all
  have b: "pr_exists w' ?st url = (True, ?st)"
    using cached_answer_repeats [OF c] by simp
  show ?thesis
    using a b assms(3,4) by (simp add: validate_pull_request_def Let_def)
qed

lemma repo_check_after_failed_request:
  assumes "gh_cache st url = None"
    and "http_get w (length (gh_requests st)) url = None"
    and "is_github_repo_url w url" and "is_github_repo_url w' url"
  shows "fst (validate_github_repo_url w st url app_id) = []
       \<and> fst (validate_github_repo_url w' (snd (validate_github_repo_url w st url app_id)) url app_id) = []"
proof -
  let ?st = "snd (repo_exists w st url)"
  have a: "fst (repo_exists w st url)" and c: "gh_cache ?st url = Some True"
    using repo_exists_request_fails [OF assms(1,2)] by simp_all
  have b: "repo_exists w' ?st url = (True, ?st)"
    using cached_answer_repeats [OF c] by simp
  show ?thesis
    using a b assms(3,4) by (simp add: validate_github_repo_url_def Let_def)
qed

lemma pr_finding_only_on_404:
  assumes "gh_cache st url = None" and "is_github_pr_url w url"
  shows "(fst (validate_pull_request w st url app_id) \<noteq> [])
       = (http_get w (length (gh_requests st)) (pr_request_url w url) = Some 404)"
  using assms
  by (auto simp: validate_pull_request_def pr_exists_def record_answer_def Let_def
      split: option.splits)

lemma repo_finding_on_every_other_status:
  assumes "gh_cache st url = None" and "is_github_repo_url w url"
  shows "(fst (validate_github_repo_url w st url app_id) \<noteq> [])
       = (case http_get w (length (gh_requests st)) url of
            None \<Rightarrow> False | Some status_code \<Rightarrow> status_code \<noteq> 200)"
  using assms
  by (auto simp: validate_github_repo_url_def repo_exists_def record_answer_def Let_def
      split: option.splits)

text \<open>
  Claim C10 at a repository check that GitHub answers with the status 403 (rate limit):
  the URL is a well-formed repository URL and the answer is no 404, yet the check reports
  the repository as not found; the pull-request check in the same situation reports
  nothing.
\<close>

theorem repo_check_reports_rate_limited_repository:
  "is_github_repo_url (answering 403) ''https://github.com/getumbrel/umbrel-apps'' \<and>
   map error_id (fst (validate_github_repo_url (answering 403) new_github_validator
       ''https://github.com/getumbrel/umbrel-apps'' ''demo'')) = [''invalid_repo_url''] \<and>
   map title (fst (validate_github_repo_url (answering 403) new_github_validator
       ''https://github.com/getumbrel/umbrel-apps'' ''demo''))
     = [''Repository not found '' @ quoted ''https://github.com/getumbrel/umbrel-apps''] \<and>
   is_github_pr_url (answering 403) ''https://github.com/getumbrel/umbrel-apps/pull/7'' \<and>
   fst (validate_pull_request (answering 403) new_github_validator
       ''https://github.com/getumbrel/umbrel-apps/pull/7'' ''demo'') = []"
  by code_simp

section \<open>Properties of the orchestrator\<close>

lemma manifest_checks_without_manifest:
  assumes "app_manifest_model w data = Inl e" and "all_app_manifests context \<noteq> []"
  shows "manifest_checks w app_id context errors0 data = Inl AttributeError"
  using assms by (simp add: manifest_checks_def Let_def)

lemma validate_app_manifest_raises:
  assumes "fs_is_file w manifest_path" and "fs_read w manifest_path = Inr content"
    and "safe_load w content = Inr data"
    and "fst (validate_github_urls (internet w) (python w) st data app_id) = Inr github_errors"
    and "app_manifest_model w data = Inl e" and "all_app_manifests context \<noteq> []"
  shows "fst (validate_app_manifest w st manifest_path app_id context) = Inl AttributeError"
  using assms manifest_checks_without_manifest [OF assms(5,6)]
  by (simp add: validate_app_manifest_def parse_yaml_with_error_handling_def Let_def)

text \<open>
  Claim C1 at a manifest that the schema rejects (\<open>id: demo\<close>, no other field), linted
  with the manifest text of another app in the context: the duplicate-port check is not
  skipped, it reads the port of the manifest that was not constructed, and the
  \<open>AttributeError\<close> leaves \<open>_validate_app_manifest\<close> and the whole run. Without manifests
  of other apps in the context the same call returns its Findings.
\<close>

theorem manifest_validation_raises_on_rejected_manifest:
  "app_manifest_model example_world (YMap [(''id'', YStr ''demo'')])
     = Inl ''13 validation errors for UmbrelAppManifest'' \<and>
   all_app_manifests context_with_other_apps = [''{id: other, name: Other, port: 3000}''] \<and>
   fst (validate_app_manifest example_world new_github_validator
          ''store/demo/umbrel-app.yml'' ''demo'' context_with_other_apps) = Inl AttributeError \<and>
   fst (lint_all_apps example_world new_github_validator ''store'' context_with_other_apps)
     = Inl AttributeError \<and>
   finding_ids (fst (validate_app_manifest example_world new_github_validator
          ''store/demo/umbrel-app.yml'' ''demo'' default_context)) = [''schema_validation_error'']"
  by code_simp

lemma merge_result_counters: "counters (merge_result result other) = counters result"
  by (simp add: merge_result_def counters_def)

lemma lint_apps_loop_counters:
  "returned (lint_apps_loop w st directory context result apps) = Some r
   \<Longrightarrow> counters r = counters result"
proof (induction apps arbitrary: st result)
  case Nil
  then show ?case by (simp add: returned_def)
next
  case (Cons app_id apps)
  show ?case
  proof (cases "fst (lint_app w st directory app_id context)")
    case (Inl e)
    with Cons.prems show ?thesis by (simp add: returned_def Let_def)
  next
    case (Inr app_result)
    with Cons.prems have "returned (lint_apps_loop w (snd (lint_app w st directory app_id context))
        directory context (merge_result result app_result) apps) = Some r"
      by (simp add: Let_def returned_def)
    from Cons.IH [OF this] show ?thesis by (simp add: merge_result_counters)
  qed
qed

lemma store_report_counters_zero:
  assumes "\<not> fs_exists w (path_join directory ''umbrel-app.yml'')"
    and "returned (lint_all_apps w st directory context) = Some r"
  shows "counters r = (0, 0, 0)"
proof (cases "fs_iterdir w directory")
  case (Inl e)
  with assms show ?thesis by (simp add: lint_all_apps_def returned_def)
next
  case (Inr names)
  with assms have "returned (lint_apps_loop w st directory context
      (merge_result empty_result (lint_app_store w directory context))
      (app_directories w directory names)) = Some r"
    by (simp add: lint_all_apps_def)
  from lint_apps_loop_counters [OF this] show ?thesis
    by (simp add: merge_result_counters) (simp add: counters_def empty_result_def)
qed

text \<open>
  Claim C6 at a community store directory with no app, no \<open>umbrel-app-store.yml\<close> and
  no \<open>README.md\<close>: the Report of \<open>lint_all_apps\<close> has one Error and one Warning, and its
  three counters are zero.
\<close>

theorem store_report_counters_not_updated:
  "map_option counters
     (returned (lint_all_apps example_world new_github_validator ''empty-store'' default_context))
     = Some (0, 0, 0) \<and>
   map_option counted
     (returned (lint_all_apps example_world new_github_validator ''empty-store'' default_context))
     = Some (1, 1, 0)"
  by code_simp

end
